theory Spec2Isabelle
  imports Main "HOL-Library.Word"
begin

section \<open>JavaScript strings\<close>

text \<open>
  A JavaScript string is a sequence of UTF-16 code units. String literals of the
  sources that are plain ASCII are written through \<open>utf16\<close>; Cyrillic literals are
  written out as their code units.
\<close>

type_synonym jsstring = "16 word list"

definition utf16 :: "string \<Rightarrow> jsstring" where
  "utf16 s = map (\<lambda>c. of_nat (of_char c)) s"

text \<open>
  Truthiness of a value of type \<^verbatim>\<open>string | undefined\<close>, as tested by \<^verbatim>\<open>if (translation)\<close>
  and by \<^verbatim>\<open>||\<close>: \<^verbatim>\<open>undefined\<close> and the empty string are falsy, every other string is truthy.
\<close>

definition truthy :: "jsstring option \<Rightarrow> bool" where
  "truthy v = (case v of None \<Rightarrow> False | Some s \<Rightarrow> s \<noteq> [])"

section \<open>The document and the console\<close>

text \<open>
  The document is the sequence of its elements in document order; a node reference is
  an index into it. An element carries the \<^verbatim>\<open>data-translate\<close> attribute (\<open>None\<close> when the
  attribute is not there), its classes and its content. Contents are plain text, so that
  the text read by \<^verbatim>\<open>innerText\<close> is the text written by \<^verbatim>\<open>innerHTML = ...\<close>; markup inside a
  translation and elements nested in one another are outside this model.
  Objects typed \<^verbatim>\<open>{ [key: string]: string }\<close> are maps from strings to strings: a key
  that the object does not have reads as \<^verbatim>\<open>undefined\<close> (\<open>None\<close>).
\<close>

record element =
  data_translate :: "jsstring option"
  classList :: "jsstring list"
  innerHTML :: jsstring

text \<open>
  The state a method runs in: the receiver \<^verbatim>\<open>this\<close>, the ambient \<^verbatim>\<open>document\<close>, and the
  messages written to the console so far, oldest first.
\<close>

record 'a world =
  this :: 'a
  document :: "element list"
  console :: "jsstring list"

definition querySelectorAll_attr :: "element list \<Rightarrow> nat list" where
  \<comment> \<open>\<^verbatim>\<open>document.querySelectorAll('[data-translate]')\<close>\<close>
  "querySelectorAll_attr doc =
     filter (\<lambda>i. data_translate (doc ! i) \<noteq> None) [0..<length doc]"

definition querySelectorAll_class :: "jsstring \<Rightarrow> element list \<Rightarrow> nat list" where
  \<comment> \<open>\<^verbatim>\<open>document.querySelectorAll(`.${c}`)\<close> for a class name \<open>c\<close>\<close>
  "querySelectorAll_class c doc =
     filter (\<lambda>i. c \<in> set (classList (doc ! i))) [0..<length doc]"

definition forEach :: "nat list \<Rightarrow> (nat \<Rightarrow> 's \<Rightarrow> 's) \<Rightarrow> 's \<Rightarrow> 's" where
  "forEach nodes callback w = fold callback nodes w"

definition dataset_translate :: "element \<Rightarrow> jsstring" where
  \<comment> \<open>\<^verbatim>\<open>element.dataset.translate\<close> where it is used as a property name and inside a
      template literal: \<^verbatim>\<open>undefined\<close> reads as the string "undefined" there\<close>
  "dataset_translate e =
     (case data_translate e of Some k \<Rightarrow> k | None \<Rightarrow> utf16 ''undefined'')"

definition set_innerHTML :: "nat \<Rightarrow> jsstring \<Rightarrow> 'a world \<Rightarrow> 'a world" where
  "set_innerHTML i s w =
     w\<lparr>document := (document w)[i := (document w ! i)\<lparr>innerHTML := s\<rparr>]\<rparr>"

definition innerText :: "element \<Rightarrow> jsstring" where
  \<comment> \<open>the rendered text of an element whose content is plain text\<close>
  "innerText e = innerHTML e"

definition console_warn :: "jsstring \<Rightarrow> 'a world \<Rightarrow> 'a world" where
  "console_warn msg w = w\<lparr>console := console w @ [msg]\<rparr>"


section \<open>translation-data-attributes.ts\<close>

record DataTranslator =
  translateMap :: "jsstring \<rightharpoonup> jsstring"


definition da_not_found :: "jsstring \<Rightarrow> jsstring" where
  "da_not_found key = utf16 ''Translation not found for key: '' @ key"

definition da_callback :: "nat \<Rightarrow> DataTranslator world \<Rightarrow> DataTranslator world" where
  "da_callback i w =
     (let key = dataset_translate (document w ! i);
          translation = translateMap (this w) key
      in case translation of
           Some t \<Rightarrow>
             if truthy translation then set_innerHTML i t w
             else console_warn (da_not_found key) w
         | None \<Rightarrow> console_warn (da_not_found key) w)"

definition da_translate :: "DataTranslator world \<Rightarrow> DataTranslator world" where
  "da_translate w = forEach (querySelectorAll_attr (document w)) da_callback w"

section \<open>translation-several-languages.ts\<close>

text \<open>
  The fields \<^verbatim>\<open>language\<close> and \<^verbatim>\<open>translations\<close> of this file's \<^verbatim>\<open>Translator\<close>.
\<close>

record LangTranslator =
  ml_language :: jsstring
  ml_translations :: "jsstring \<rightharpoonup> (jsstring \<rightharpoonup> jsstring)"

definition js_or :: "jsstring option \<Rightarrow> jsstring \<Rightarrow> jsstring" where
  \<comment> \<open>\<^verbatim>\<open>a || b\<close> for \<open>a\<close> of type \<^verbatim>\<open>string | undefined\<close>\<close>
  "js_or a b = (case a of Some s \<Rightarrow> if truthy a then s else b | None \<Rightarrow> b)"

definition or_empty :: "('k \<rightharpoonup> 'v) option \<Rightarrow> ('k \<rightharpoonup> 'v)" where
  \<comment> \<open>\<^verbatim>\<open>obj || {}\<close>: an object is truthy, \<^verbatim>\<open>undefined\<close> is not\<close>
  "or_empty obj = (case obj of Some m \<Rightarrow> m | None \<Rightarrow> Map.empty)"

definition optional_member :: "('k \<rightharpoonup> 'v) option \<Rightarrow> 'k \<Rightarrow> 'v option" where
  \<comment> \<open>\<^verbatim>\<open>obj?.[key]\<close>: \<^verbatim>\<open>undefined\<close> when \<open>obj\<close> is \<^verbatim>\<open>undefined\<close>, where \<^verbatim>\<open>obj[key]\<close> would
      throw a TypeError\<close>
  "optional_member obj key = (case obj of None \<Rightarrow> None | Some m \<Rightarrow> m key)"

definition ml_constructor ::
  "jsstring option \<Rightarrow> (jsstring \<rightharpoonup> (jsstring \<rightharpoonup> jsstring)) option \<Rightarrow> LangTranslator" where
  "ml_constructor language' translations' =
     \<lparr>ml_language = js_or language' (utf16 ''en''), ml_translations = or_empty translations'\<rparr>"

definition ml_setLanguage :: "jsstring \<Rightarrow> LangTranslator world \<Rightarrow> LangTranslator world" where
  "ml_setLanguage language' w = w\<lparr>this := (this w)\<lparr>ml_language := language'\<rparr>\<rparr>"

definition ml_lookup :: "LangTranslator \<Rightarrow> jsstring \<Rightarrow> jsstring option" where
  \<comment> \<open>\<^verbatim>\<open>this.translations[this.language]?.[key]\<close>\<close>
  "ml_lookup t key = optional_member (ml_translations t (ml_language t)) key"

definition ml_not_found :: "LangTranslator \<Rightarrow> jsstring \<Rightarrow> jsstring" where
  "ml_not_found t key =
     utf16 ''Translation not found for key: '' @ key @ utf16 '' in language: '' @ ml_language t"

definition ml_callback :: "nat \<Rightarrow> LangTranslator world \<Rightarrow> LangTranslator world" where
  "ml_callback i w =
     (let key = dataset_translate (document w ! i);
          translation = ml_lookup (this w) key
      in case translation of
           Some t \<Rightarrow>
             if truthy translation then set_innerHTML i t w
             else console_warn (ml_not_found (this w) key) w
         | None \<Rightarrow> console_warn (ml_not_found (this w) key) w)"

definition ml_translate :: "LangTranslator world \<Rightarrow> LangTranslator world" where
  "ml_translate w = forEach (querySelectorAll_attr (document w)) ml_callback w"

section \<open>translation-intl.ts\<close>

text \<open>
  \<^verbatim>\<open>Intl.MessageFormat\<close> is supplied by the platform. A formatter is taken by what
  \<^verbatim>\<open>formatter.format({ id: key })\<close> returns for each key, a \<^verbatim>\<open>string | undefined\<close>, and
  the constructor \<^verbatim>\<open>new Intl.MessageFormat(messages, locale)\<close> is a parameter
  \<open>MessageFormat\<close> of the operations that call it.
\<close>

type_synonym formatter = "jsstring \<Rightarrow> jsstring option"

type_synonym message_format = "(jsstring \<rightharpoonup> jsstring) \<Rightarrow> jsstring \<Rightarrow> formatter"

record LocaleTranslator =
  intl_locale :: jsstring
  intl_translations :: "jsstring \<rightharpoonup> (jsstring \<rightharpoonup> jsstring)"
  intl_formatter :: formatter


definition intl_not_found :: "LocaleTranslator \<Rightarrow> jsstring \<Rightarrow> jsstring" where
  "intl_not_found t key =
     utf16 ''Translation not found for key: '' @ key @ utf16 '' in locale: '' @ intl_locale t"

definition intl_callback :: "nat \<Rightarrow> LocaleTranslator world \<Rightarrow> LocaleTranslator world" where
  "intl_callback i w =
     (let key = dataset_translate (document w ! i);
          translation = intl_formatter (this w) key
      in case translation of
           Some t \<Rightarrow>
             if truthy translation then set_innerHTML i t w
             else console_warn (intl_not_found (this w) key) w
         | None \<Rightarrow> console_warn (intl_not_found (this w) key) w)"

definition intl_translate :: "LocaleTranslator world \<Rightarrow> LocaleTranslator world" where
  "intl_translate w = forEach (querySelectorAll_attr (document w)) intl_callback w"

definition intl_setLocale ::
  "message_format \<Rightarrow> jsstring \<Rightarrow> LocaleTranslator world \<Rightarrow> LocaleTranslator world" where
  "intl_setLocale MessageFormat locale' w =
     w\<lparr>this := (this w)\<lparr>intl_locale := locale',
          intl_formatter := MessageFormat (or_empty (intl_translations (this w) locale')) locale'\<rparr>\<rparr>"


section \<open>translation-to-the-DOM.ts\<close>

text \<open>
  \<^verbatim>\<open>String.prototype.toLowerCase\<close> is supplied by the platform and is a parameter
  \<open>lower\<close> of \<open>translate\<close>. \<open>toLowerCase\<close> below is that function on strings made of
  Basic Latin, Latin-1 Supplement and the Cyrillic code units U+0400 to U+045F, where it
  maps code unit by code unit; it leaves every code unit outside these ranges as it is.
\<close>

definition toLowerCase_unit :: "16 word \<Rightarrow> 16 word" where
  "toLowerCase_unit c =
     (if 0x41 \<le> c \<and> c \<le> 0x5A then c + 0x20
      else if 0xC0 \<le> c \<and> c \<le> 0xDE \<and> c \<noteq> 0xD7 then c + 0x20
      else if 0x400 \<le> c \<and> c \<le> 0x40F then c + 0x50
      else if 0x410 \<le> c \<and> c \<le> 0x42F then c + 0x20
      else c)"

definition toLowerCase :: "jsstring \<Rightarrow> jsstring" where
  "toLowerCase s = map toLowerCase_unit s"

record Translate =
  translateItem :: jsstring
  translateFor :: jsstring
  translateTo :: jsstring

definition Translate_body ::
  "(jsstring \<Rightarrow> jsstring) \<Rightarrow> nat \<Rightarrow> Translate world \<Rightarrow> Translate world" where
  \<comment> \<open>the body of \<^verbatim>\<open>for (const translateItem of translateItems)\<close>\<close>
  "Translate_body lower i w =
     (if lower (innerText (document w ! i)) = lower (translateFor (this w))
      then set_innerHTML i (translateTo (this w)) w
      else w)"

definition Translate_translate ::
  "(jsstring \<Rightarrow> jsstring) \<Rightarrow> Translate world \<Rightarrow> Translate world" where
  \<comment> \<open>\<^verbatim>\<open>if (translateItems)\<close> holds for every NodeList, also an empty one\<close>
  "Translate_translate lower w =
     (if translateItem (this w) \<noteq> []
      then forEach (querySelectorAll_class (translateItem (this w)) (document w))
             (Translate_body lower) w
      else w)"

definition translateList_forEach ::
  "(jsstring \<Rightarrow> jsstring) \<Rightarrow> Translate list \<Rightarrow> unit world \<Rightarrow> unit world" where
  \<comment> \<open>\<^verbatim>\<open>translateList.forEach(item => new Translate(...).translate())\<close> at the top level of the
      script: each item is the receiver of its own call and is dropped after it\<close>
  "translateList_forEach lower items w =
     fold (\<lambda>item w'.
             let r = Translate_translate lower
                       \<lparr>this = item, document = document w', console = console w'\<rparr>
             in w'\<lparr>document := document r, console := console r\<rparr>) items w"

section \<open>translations-proxy.ts\<close>








section \<open>The examples of the sources\<close>

definition pryvit :: jsstring where
  "pryvit = [0x41F, 0x440, 0x438, 0x432, 0x456, 0x442]"

definition svynyni_rebra :: jsstring where
  "svynyni_rebra =
     [0x421, 0x432, 0x438, 0x43D, 0x438, 0x43D, 0x456, 0x20, 0x440, 0x435, 0x431, 0x440, 0x430]"

definition steik :: jsstring where
  "steik = [0x421, 0x442, 0x435, 0x439, 0x43A]"

definition do_pobachennia :: jsstring where
  "do_pobachennia =
     [0x414, 0x43E, 0x20, 0x43F, 0x43E, 0x431, 0x430, 0x447, 0x435, 0x43D, 0x43D, 0x44F]"

definition translations_uk :: "jsstring \<rightharpoonup> jsstring" where
  \<comment> \<open>\<^verbatim>\<open>{ hello: ..., goodbye: ... }\<close> of translation-data-attributes.ts and translations-proxy.ts\<close>
  "translations_uk = [utf16 ''hello'' \<mapsto> pryvit, utf16 ''goodbye'' \<mapsto> do_pobachennia]"

definition translations_en :: "jsstring \<rightharpoonup> jsstring" where
  "translations_en = [utf16 ''hello'' \<mapsto> utf16 ''Hello'', utf16 ''goodbye'' \<mapsto> utf16 ''Goodbye'']"

definition translations_by_language :: "jsstring \<rightharpoonup> (jsstring \<rightharpoonup> jsstring)" where
  \<comment> \<open>\<^verbatim>\<open>{ en: {...}, uk: {...} }\<close> of translation-several-languages.ts\<close>
  "translations_by_language = [utf16 ''en'' \<mapsto> translations_en, utf16 ''uk'' \<mapsto> translations_uk]"





definition p_hello :: element where
  \<comment> \<open>\<^verbatim>\<open><p data-translate="hello">Hello</p>\<close>\<close>
  "p_hello = \<lparr>data_translate = Some (utf16 ''hello''), classList = [],
               innerHTML = utf16 ''Hello''\<rparr>"

definition p_goodbye :: element where
  \<comment> \<open>\<^verbatim>\<open><p data-translate="goodbye">Goodbye</p>\<close>\<close>
  "p_goodbye = \<lparr>data_translate = Some (utf16 ''goodbye''), classList = [],
                 innerHTML = utf16 ''Goodbye''\<rparr>"

definition menu_item :: "jsstring \<Rightarrow> element" where
  \<comment> \<open>\<^verbatim>\<open><div class="menu-item">...</div>\<close>\<close>
  "menu_item s = \<lparr>data_translate = None, classList = [utf16 ''menu-item''], innerHTML = s\<rparr>"

definition translateList :: "Translate list" where
  "translateList =
     [\<lparr>translateItem = utf16 ''menu-item'', translateFor = utf16 ''Pork Ribs'',
        translateTo = svynyni_rebra\<rparr>,
      \<lparr>translateItem = utf16 ''menu-item'', translateFor = utf16 ''Steak'',
        translateTo = steik\<rparr>]"

definition page :: "'a \<Rightarrow> element list \<Rightarrow> 'a world" where
  \<comment> \<open>a receiver in front of a document, with nothing on the console yet\<close>
  "page t doc = \<lparr>this = t, document = doc, console = []\<rparr>"

section \<open>What a pass over the marked elements does\<close>

text \<open>
  The three attribute-keyed variants differ in how a key is looked up and in the text of
  the warning. \<open>bound lookup\<close> is the element after its callback has run, and
  \<open>warnings lookup not_found\<close> the messages its callback writes.
\<close>

definition bound :: "(jsstring \<Rightarrow> jsstring option) \<Rightarrow> element \<Rightarrow> element" where
  "bound lookup e =
     (case lookup (dataset_translate e) of
        Some t \<Rightarrow> if t \<noteq> [] then e\<lparr>innerHTML := t\<rparr> else e
      | None \<Rightarrow> e)"

definition warnings ::
  "(jsstring \<Rightarrow> jsstring option) \<Rightarrow> (jsstring \<Rightarrow> jsstring) \<Rightarrow> element \<Rightarrow> jsstring list" where
  "warnings lookup not_found e =
     (if truthy (lookup (dataset_translate e)) then [] else [not_found (dataset_translate e)])"

definition marked :: "element \<Rightarrow> bool" where
  "marked e = (data_translate e \<noteq> None)"

definition replaced :: "(jsstring \<Rightarrow> jsstring) \<Rightarrow> Translate \<Rightarrow> element \<Rightarrow> element" where
  \<comment> \<open>the element after the loop body of \<open>Translate_translate\<close> has run on it\<close>
  "replaced lower t e =
     (if lower (innerText e) = lower (translateFor t) then e\<lparr>innerHTML := translateTo t\<rparr> else e)"

lemma fold_nodes:
  assumes step: "\<And>i w. f i w =
      w\<lparr>document := (document w)[i := g (this w) (document w ! i)],
        console := console w @ h (this w) (document w ! i)\<rparr>"
    and "distinct ns"
  shows "fold f ns w =
      w\<lparr>document := map (\<lambda>j. if j \<in> set ns then g (this w) (document w ! j) else document w ! j)
                        [0..<length (document w)],
        console := console w @ concat (map (\<lambda>i. h (this w) (document w ! i)) ns)\<rparr>"
  using \<open>distinct ns\<close>
proof (induction ns arbitrary: w)
  case Nil
  show ?case by (simp add: map_nth)
next
  case (Cons i ns)
  let ?w1 = "f i w"
  have d1: "document ?w1 = (document w)[i := g (this w) (document w ! i)]"
    and c1: "console ?w1 = console w @ h (this w) (document w ! i)"
    and t1: "this ?w1 = this w"
    by (simp_all add: step)
  from Cons.prems have ni: "i \<notin> set ns" and dn: "distinct ns" by simp_all
  have same: "document ?w1 ! j = document w ! j" if "j \<in> set ns" for j
  proof -
    from that ni have "i \<noteq> j" by auto
    then show ?thesis by (simp add: d1)
  qed
  have docs: "map (\<lambda>j. if j \<in> set ns then g (this w) (document ?w1 ! j) else document ?w1 ! j)
                 [0..<length (document ?w1)]
            = map (\<lambda>j. if j \<in> set (i # ns) then g (this w) (document w ! j) else document w ! j)
                 [0..<length (document w)]"
  proof (intro nth_equalityI)
    show "length (map (\<lambda>j. if j \<in> set ns then g (this w) (document ?w1 ! j) else document ?w1 ! j)
                 [0..<length (document ?w1)])
        = length (map (\<lambda>j. if j \<in> set (i # ns) then g (this w) (document w ! j) else document w ! j)
                 [0..<length (document w)])"
      by (simp add: d1)
  next
    fix k
    assume "k < length (map (\<lambda>j. if j \<in> set ns then g (this w) (document ?w1 ! j)
                 else document ?w1 ! j) [0..<length (document ?w1)])"
    then have k: "k < length (document w)" by (simp add: d1)
    show "map (\<lambda>j. if j \<in> set ns then g (this w) (document ?w1 ! j) else document ?w1 ! j)
                 [0..<length (document ?w1)] ! k
        = map (\<lambda>j. if j \<in> set (i # ns) then g (this w) (document w ! j) else document w ! j)
                 [0..<length (document w)] ! k"
    proof (cases "k \<in> set ns")
      case True
      then show ?thesis using k same [OF True] by (simp add: d1 del: list_update_id)
    next
      case False
      then show ?thesis using k by (simp add: d1 nth_list_update)
    qed
  qed
  have cons: "map (\<lambda>j. h (this w) (document ?w1 ! j)) ns = map (\<lambda>j. h (this w) (document w ! j)) ns"
    using same by simp
  have "fold f (i # ns) w = fold f ns ?w1" by simp
  also have "\<dots> = ?w1\<lparr>document := map (\<lambda>j. if j \<in> set ns then g (this ?w1) (document ?w1 ! j)
                                            else document ?w1 ! j) [0..<length (document ?w1)],
        console := console ?w1 @ concat (map (\<lambda>i. h (this ?w1) (document ?w1 ! i)) ns)\<rparr>"
    by (rule Cons.IH [OF dn])
  also have "\<dots> = w\<lparr>document := map (\<lambda>j. if j \<in> set (i # ns) then g (this w) (document w ! j)
                                            else document w ! j) [0..<length (document w)],
        console := console w @ concat (map (\<lambda>i. h (this w) (document w ! i)) (i # ns))\<rparr>"
    unfolding t1 docs cons c1 by (simp add: step)
  finally show ?case .
qed

lemma nth_filter_upt:
  "map (\<lambda>i. xs ! i) (filter (\<lambda>i. P (xs ! i)) [0..<length xs]) = filter P xs"
proof -
  have "filter P (map (\<lambda>i. xs ! i) [0..<length xs]) = filter P xs"
    by (simp add: map_nth)
  then show ?thesis by (simp add: filter_map comp_def)
qed

lemma fold_selected:
  assumes step: "\<And>i w. f i w =
      w\<lparr>document := (document w)[i := g (this w) (document w ! i)],
        console := console w @ h (this w) (document w ! i)\<rparr>"
  shows "fold f (filter (\<lambda>i. P (document w ! i)) [0..<length (document w)]) w =
      w\<lparr>document := map (\<lambda>e. if P e then g (this w) e else e) (document w),
        console := console w @ concat (map (h (this w)) (filter P (document w)))\<rparr>"
proof -
  let ?ns = "filter (\<lambda>i. P (document w ! i)) [0..<length (document w)]"
  have docs: "map (\<lambda>j. if j \<in> set ?ns then g (this w) (document w ! j) else document w ! j)
                 [0..<length (document w)]
            = map (\<lambda>e. if P e then g (this w) e else e) (document w)"
    by (intro nth_equalityI) auto
  have "map (\<lambda>i. h (this w) (document w ! i)) ?ns
      = map (h (this w)) (map (\<lambda>i. document w ! i) ?ns)"
    by simp
  also have "\<dots> = map (h (this w)) (filter P (document w))"
    by (simp only: nth_filter_upt)
  finally have cons: "map (\<lambda>i. h (this w) (document w ! i)) ?ns
      = map (h (this w)) (filter P (document w))" .
  have "distinct ?ns" by simp
  from fold_nodes [where f = f and g = g and h = h and w = w, OF step this] show ?thesis
    unfolding docs cons .
qed

lemma da_callback_step:
  "da_callback i w =
     w\<lparr>document := (document w)[i := bound (translateMap (this w)) (document w ! i)],
       console := console w @ warnings (translateMap (this w)) da_not_found (document w ! i)\<rparr>"
  by (auto simp: da_callback_def bound_def warnings_def set_innerHTML_def console_warn_def
      Let_def truthy_def split: option.splits)

lemma da_translate_eq:
  "da_translate w =
     w\<lparr>document := map (\<lambda>e. if marked e then bound (translateMap (this w)) e else e) (document w),
       console := console w @
         concat (map (warnings (translateMap (this w)) da_not_found) (filter marked (document w)))\<rparr>"
  unfolding da_translate_def forEach_def querySelectorAll_attr_def
  using fold_selected [where f = da_callback and g = "\<lambda>t. bound (translateMap t)"
      and h = "\<lambda>t. warnings (translateMap t) da_not_found" and P = marked and w = w,
      OF da_callback_step]
  by (simp add: marked_def)

lemma ml_callback_step:
  "ml_callback i w =
     w\<lparr>document := (document w)[i := bound (ml_lookup (this w)) (document w ! i)],
       console := console w @
         warnings (ml_lookup (this w)) (ml_not_found (this w)) (document w ! i)\<rparr>"
  by (auto simp: ml_callback_def bound_def warnings_def set_innerHTML_def console_warn_def
      Let_def truthy_def split: option.splits)

lemma ml_translate_eq:
  "ml_translate w =
     w\<lparr>document := map (\<lambda>e. if marked e then bound (ml_lookup (this w)) e else e) (document w),
       console := console w @
         concat (map (warnings (ml_lookup (this w)) (ml_not_found (this w)))
                   (filter marked (document w)))\<rparr>"
  unfolding ml_translate_def forEach_def querySelectorAll_attr_def
  using fold_selected [where f = ml_callback and g = "\<lambda>t. bound (ml_lookup t)"
      and h = "\<lambda>t. warnings (ml_lookup t) (ml_not_found t)" and P = marked and w = w,
      OF ml_callback_step]
  by (simp add: marked_def)

lemma intl_callback_step:
  "intl_callback i w =
     w\<lparr>document := (document w)[i := bound (intl_formatter (this w)) (document w ! i)],
       console := console w @
         warnings (intl_formatter (this w)) (intl_not_found (this w)) (document w ! i)\<rparr>"
  by (auto simp: intl_callback_def bound_def warnings_def set_innerHTML_def console_warn_def
      Let_def truthy_def split: option.splits)

lemma intl_translate_eq:
  "intl_translate w =
     w\<lparr>document := map (\<lambda>e. if marked e then bound (intl_formatter (this w)) e else e)
                        (document w),
       console := console w @
         concat (map (warnings (intl_formatter (this w)) (intl_not_found (this w)))
                   (filter marked (document w)))\<rparr>"
  unfolding intl_translate_def forEach_def querySelectorAll_attr_def
  using fold_selected [where f = intl_callback and g = "\<lambda>t. bound (intl_formatter t)"
      and h = "\<lambda>t. warnings (intl_formatter t) (intl_not_found t)" and P = marked and w = w,
      OF intl_callback_step]
  by (simp add: marked_def)

lemma Translate_body_step:
  "Translate_body lower i w =
     w\<lparr>document := (document w)[i := replaced lower (this w) (document w ! i)],
       console := console w @ (\<lambda>t e. []) (this w) (document w ! i)\<rparr>"
  by (simp add: Translate_body_def replaced_def set_innerHTML_def)

lemma Translate_translate_eq:
  "Translate_translate lower w =
     w\<lparr>document :=
         map (\<lambda>e. if translateItem (this w) \<noteq> [] \<and> translateItem (this w) \<in> set (classList e)
                  then replaced lower (this w) e else e) (document w)\<rparr>"
proof (cases "translateItem (this w) = []")
  case True
  then show ?thesis by (simp add: Translate_translate_def)
next
  case False
  from fold_selected [where f = "Translate_body lower" and g = "replaced lower"
      and h = "\<lambda>t e. []" and P = "\<lambda>e. translateItem (this w) \<in> set (classList e)" and w = w,
      OF Translate_body_step]
  show ?thesis using False
    by (simp add: Translate_translate_def forEach_def querySelectorAll_class_def)
qed














lemma translateList_forEach_two:
  "document (translateList_forEach lower [r1, r2] w) =
     document (Translate_translate lower
       \<lparr>this = r2,
        document = document (Translate_translate lower
                     \<lparr>this = r1, document = document w, console = console w\<rparr>),
        console = console (Translate_translate lower
                     \<lparr>this = r1, document = document w, console = console w\<rparr>)\<rparr>)"
  by (simp add: translateList_forEach_def Let_def)

section \<open>The claims\<close>










text \<open>
  C5: on the two menu items of the example, applying the two rules of \<^verbatim>\<open>translateList\<close> in
  order leaves "Pork Ribs" and "Steak" as their Ukrainian texts. The match ignores case
  (second line) and is on the whole text (third line).
\<close>

theorem C5_menu_items_translated:
  "map innerHTML (document (translateList_forEach toLowerCase translateList
       (page () [menu_item (utf16 ''Pork Ribs''), menu_item (utf16 ''Steak'')])))
     = [svynyni_rebra, steik]
   \<and> map innerHTML (document (translateList_forEach toLowerCase translateList
       (page () [menu_item (utf16 ''PORK ribs''), menu_item (utf16 ''steak'')])))
     = [svynyni_rebra, steik]
   \<and> map innerHTML (document (translateList_forEach toLowerCase translateList
       (page () [menu_item (utf16 ''Pork Ribs!''), menu_item (utf16 ''Steaks'')])))
     = [utf16 ''Pork Ribs!'', utf16 ''Steaks'']"
  by (simp add: translateList_def translateList_forEach_two Translate_translate_eq page_def
      menu_item_def replaced_def innerText_def toLowerCase_def toLowerCase_unit_def utf16_def
      svynyni_rebra_def steik_def)



text \<open>
  C7: \<^verbatim>\<open>setLanguage(t)\<close> makes \<open>t\<close> the active language, whatever \<open>t\<close> is, and leaves the
  table, the document and the console as they were; what it does to the receiver does not
  depend on the document. On the example of the source the texts are still the Ukrainian
  ones after \<^verbatim>\<open>setLanguage('en')\<close>, and the English ones after the next \<^verbatim>\<open>translate()\<close>.
\<close>

theorem C7_setLanguage_frame:
  "ml_language (this (ml_setLanguage t w)) = t
   \<and> ml_translations (this (ml_setLanguage t w)) = ml_translations (this w)
   \<and> document (ml_setLanguage t w) = document w
   \<and> console (ml_setLanguage t w) = console w
   \<and> this (ml_setLanguage t (w\<lparr>document := d\<rparr>)) = this (ml_setLanguage t w)
   \<and> map innerHTML (document (ml_setLanguage (utf16 ''en'')
        (ml_translate (page (ml_constructor (Some (utf16 ''uk'')) (Some translations_by_language))
           [p_hello, p_goodbye]))))
       = [pryvit, do_pobachennia]
   \<and> map innerHTML (document (ml_translate (ml_setLanguage (utf16 ''en'')
        (ml_translate (page (ml_constructor (Some (utf16 ''uk'')) (Some translations_by_language))
           [p_hello, p_goodbye])))))
       = [utf16 ''Hello'', utf16 ''Goodbye'']"
  by (simp add: ml_translate_eq page_def 
      ml_constructor_def js_or_def or_empty_def ml_lookup_def optional_member_def ml_setLanguage_def
      translations_by_language_def translations_uk_def translations_en_def
      p_hello_def p_goodbye_def marked_def bound_def dataset_translate_def
      truthy_def utf16_def pryvit_def do_pobachennia_def)



text \<open>
  C9: \<^verbatim>\<open>translate()\<close> leaves the receiver as it was, in each of the four classes that have
  the method: the map or table, the active language or locale and the formatter are
  those from before the call. \<^verbatim>\<open>setLanguage\<close> and \<^verbatim>\<open>setLocale\<close> are what changes the active
  tag.
\<close>

theorem C9_translate_keeps_binder_state:
  "this (da_translate w) = this w
   \<and> this (ml_translate m) = this m
   \<and> this (intl_translate n) = this n
   \<and> this (Translate_translate lower c) = this c
   \<and> ml_language (this (ml_setLanguage t m)) = t
   \<and> intl_locale (this (intl_setLocale MessageFormat t n)) = t"
  by (simp add: da_translate_eq ml_translate_eq intl_translate_eq Translate_translate_eq
      ml_setLanguage_def intl_setLocale_def)



end
